theory Spec2Isabelle
  imports Main "HOL-Library.Monad_Syntax" "HOL-Library.Signed_Division"
begin

section \<open>Manacher's algorithm: all longest palindromic substrings\<close>

text \<open>
  A shallow embedding of the function \<^verbatim>\<open>manacher\<close> of \<^verbatim>\<open>src/manacher.cc\<close>.

  A C++ \<^verbatim>\<open>string\<close> is a \<^typ>\<open>string\<close> (a list of bytes), a \<^verbatim>\<open>vector<int>\<close> is an
  \<^typ>\<open>int list\<close>. The \<^verbatim>\<open>int\<close> variables of the source (\<^verbatim>\<open>n\<close>, \<^verbatim>\<open>i\<close>, \<^verbatim>\<open>C\<close>, \<^verbatim>\<open>R\<close>,
  \<^verbatim>\<open>i_mirror\<close>, \<^verbatim>\<open>maxLen\<close>, \<^verbatim>\<open>start_index\<close> and the entries of \<^verbatim>\<open>p\<close>) are modelled
  as mathematical integers: every value the function computes lies between \<open>- n\<close> and
  \<open>2 * n\<close> for \<open>n = 2 * length s + 1\<close>, so the model is the program for every input whose
  length stays below \<open>2 ^ 29\<close>, where 32-bit arithmetic does not wrap.

  Every subscript of the source is a checked access of the model: an access out of range
  (undefined behaviour for \<^verbatim>\<open>operator[]\<close>, the exception \<^verbatim>\<open>std::out_of_range\<close> for
  \<^verbatim>\<open>substr\<close>) makes the whole run \<^term>\<open>None\<close>.
\<close>

subsection \<open>Checked container accesses\<close>

definition read_at :: "'a list \<Rightarrow> int \<Rightarrow> 'a option" where
  \<comment> \<open>\<^verbatim>\<open>xs[i]\<close> as an rvalue\<close>
  "read_at xs i = (if 0 \<le> i \<and> i < int (length xs) then Some (xs ! nat i) else None)"

definition write_at :: "'a list \<Rightarrow> int \<Rightarrow> 'a \<Rightarrow> 'a list option" where
  \<comment> \<open>\<^verbatim>\<open>xs[i] = v\<close>\<close>
  "write_at xs i v = (if 0 \<le> i \<and> i < int (length xs) then Some (xs[nat i := v]) else None)"

definition substr :: "string \<Rightarrow> int \<Rightarrow> int \<Rightarrow> string option" where
  \<comment> \<open>\<^verbatim>\<open>s.substr(pos, len)\<close> with \<^verbatim>\<open>int\<close> arguments converted to \<^verbatim>\<open>size_t\<close>: a negative
      \<^verbatim>\<open>pos\<close> becomes a huge position and throws like any \<^verbatim>\<open>pos > size()\<close>; a negative
      \<^verbatim>\<open>len\<close> becomes a huge count and takes the rest of the string.\<close>
  "substr s pos len =
     (if 0 \<le> pos \<and> pos \<le> int (length s)
      then Some (if len < 0 then drop (nat pos) s else take (nat len) (drop (nat pos) s))
      else None)"

subsection \<open>The transformed string (lines 22-26)\<close>

definition preprocess :: "string \<Rightarrow> string" where
  "preprocess s = foldl (\<lambda>processed_s c. processed_s @ [c] @ ''#'') ''#'' s"

subsection \<open>The radius pass (lines 28-50)\<close>

text \<open>The inner \<^verbatim>\<open>while\<close> loop of line 41, which grows \<^verbatim>\<open>p[i]\<close> in place. The two
  comparisons of the indices guard the two reads of \<^verbatim>\<open>processed_s\<close>, as \<^verbatim>\<open>&&\<close> does.\<close>

function expand :: "string \<Rightarrow> int \<Rightarrow> int \<Rightarrow> int list \<Rightarrow> int list option" where
  "expand processed_s n i p = do {
     pi \<leftarrow> read_at p i;
     if i - (1 + pi) \<ge> 0 \<and> i + (1 + pi) < n then do {
       a \<leftarrow> read_at processed_s (i - (1 + pi));
       b \<leftarrow> read_at processed_s (i + (1 + pi));
       if a = b then do {
         p' \<leftarrow> write_at p i (pi + 1);
         expand processed_s n i p'
       } else Some p
     } else Some p
   }"
  by pat_completeness auto
termination
  by (relation "measure (\<lambda>(processed_s, n, i, p). nat (n - i - p ! nat i))")
     (auto simp: read_at_def write_at_def split: if_splits)

text \<open>One iteration of the outer \<^verbatim>\<open>for\<close> loop (lines 35-49) on the state \<open>(p, C, R)\<close>.\<close>

definition center_step :: "string \<Rightarrow> int \<Rightarrow> int \<Rightarrow> int list \<times> int \<times> int \<Rightarrow> (int list \<times> int \<times> int) option" where
  "center_step processed_s n i = (\<lambda>(p, C, R). do {
     let i_mirror = 2 * C - i;
     p \<leftarrow> (if R > i then do {
              pm \<leftarrow> read_at p i_mirror;
              write_at p i (min (R - i) pm)
            } else Some p);
     p \<leftarrow> expand processed_s n i p;
     pi \<leftarrow> read_at p i;
     if i + pi > R then Some (p, i, i + pi) else Some (p, C, R)
   })"

text \<open>The outer loop \<^verbatim>\<open>for (int i = 1; i < n - 1; ++i)\<close> of line 34, from the index \<open>i\<close> on.\<close>

function radius_loop :: "string \<Rightarrow> int \<Rightarrow> int \<Rightarrow> int list \<times> int \<times> int \<Rightarrow> (int list \<times> int \<times> int) option" where
  "radius_loop processed_s n i st =
     (if i < n - 1 then do {
        st' \<leftarrow> center_step processed_s n i st;
        radius_loop processed_s n (i + 1) st'
      } else Some st)"
  by pat_completeness auto
termination
  by (relation "measure (\<lambda>(processed_s, n, i, st). nat (n - i))") auto

subsection \<open>The maximal radius (lines 52-57)\<close>

function max_loop :: "int list \<Rightarrow> int \<Rightarrow> int \<Rightarrow> int \<Rightarrow> int option" where
  "max_loop p n i maxLen =
     (if i < n - 1 then do {
        pi \<leftarrow> read_at p i;
        max_loop p n (i + 1) (if pi > maxLen then pi else maxLen)
      } else Some maxLen)"
  by pat_completeness auto
termination
  by (relation "measure (\<lambda>(p, n, i, maxLen). nat (n - i))") auto

subsection \<open>The extraction (lines 58-65)\<close>

text \<open>The loop of line 59. Each string pushed onto \<^verbatim>\<open>longestPalindromes\<close> is kept together
  with the value of \<^verbatim>\<open>start_index\<close> it was cut at; the C++ division of line 61 truncates
  towards zero, which is \<^term>\<open>(sdiv)\<close>.\<close>

function extract_loop :: "string \<Rightarrow> int list \<Rightarrow> int \<Rightarrow> int \<Rightarrow> int \<Rightarrow> (int \<times> string) list \<Rightarrow> (int \<times> string) list option" where
  "extract_loop s p n maxLen i longestPalindromes =
     (if i < n - 1 then do {
        pi \<leftarrow> read_at p i;
        if pi = maxLen then do {
          let start_index = (i - maxLen) sdiv 2;
          sub \<leftarrow> substr s start_index maxLen;
          extract_loop s p n maxLen (i + 1) (longestPalindromes @ [(start_index, sub)])
        } else extract_loop s p n maxLen (i + 1) longestPalindromes
      } else Some longestPalindromes)"
  by pat_completeness auto
termination
  by (relation "measure (\<lambda>(s, p, n, maxLen, i, longestPalindromes). nat (n - i))") auto

subsection \<open>The function\<close>

definition radius_array :: "string \<Rightarrow> int list option" where
  \<comment> \<open>lines 22-50: the array \<^verbatim>\<open>p\<close> when the pass is over\<close>
  "radius_array s =
     (let processed_s = preprocess s;
          n = int (length processed_s);
          p = replicate (nat n) 0
      in map_option fst (radius_loop processed_s n 1 (p, 0, 0)))"

definition max_radius :: "string \<Rightarrow> int option" where
  \<comment> \<open>lines 22-57: the value of \<^verbatim>\<open>maxLen\<close>\<close>
  "max_radius s = do {
     p \<leftarrow> radius_array s;
     max_loop p (int (length (preprocess s))) 1 0
   }"

definition manacher_indexed :: "string \<Rightarrow> (int \<times> string) list option" where
  \<comment> \<open>lines 22-65: the returned strings, each with its \<^verbatim>\<open>start_index\<close>\<close>
  "manacher_indexed s = do {
     p \<leftarrow> radius_array s;
     maxLen \<leftarrow> max_loop p (int (length (preprocess s))) 1 0;
     extract_loop s p (int (length (preprocess s))) maxLen 1 []
   }"

definition manacher :: "string \<Rightarrow> string list option" where
  "manacher s = map_option (map snd) (manacher_indexed s)"

section \<open>Concrete runs\<close>

text \<open>
  Claim C5: on the empty string \<^verbatim>\<open>manacher\<close> returns the empty sequence; no string of
  length zero is emitted.
\<close>

theorem manacher_empty: "manacher [] = Some []"
  by code_simp

text \<open>
  Claim C4, as stated, fails: on \<^verbatim>\<open>"google"\<close> no element of the returned sequence is the
  string \<^verbatim>\<open>"oo"\<close>.
\<close>

theorem manacher_google_no_oo:
  "manacher ''google'' \<noteq> None \<and> ''oo'' \<notin> set (the (manacher ''google''))"
  by code_simp

text \<open>
  Claim C4, amended: on \<^verbatim>\<open>"google"\<close> the returned sequence is exactly \<^verbatim>\<open>["goog"]\<close>, the
  only longest palindromic substring (of which \<^verbatim>\<open>"oo"\<close> is the middle).
\<close>

theorem manacher_google: "manacher ''google'' = Some [''goog'']"
  by code_simp

end
